theory Spec2Isabelle
  imports Main "HOL-Library.Word" "HOL-Library.Multiset"
begin

section \<open>The scheduling solver of karpenter-core\<close>

text \<open>
  A shallow embedding of \<^verbatim>\<open>pkg/controllers/provisioning/scheduling\<close>: the prospective
  node (\<^verbatim>\<open>node.go\<close>: \<^verbatim>\<open>NewNode\<close>, \<^verbatim>\<open>Node.Add\<close>, \<^verbatim>\<open>Node.FinalizeScheduling\<close>, the instance
  type filter) and the scheduler (\<^verbatim>\<open>scheduler.go\<close>: \<^verbatim>\<open>Scheduler.Solve\<close>, \<^verbatim>\<open>Scheduler.add\<close>,
  \<^verbatim>\<open>recordSchedulingResults\<close>, \<^verbatim>\<open>subtractMax\<close>, \<^verbatim>\<open>filterByRemainingResources\<close>).

  The packages these functions call (\<^verbatim>\<open>pkg/scheduling\<close>: requirements, taints, host ports;
  \<^verbatim>\<open>pkg/utils/resources\<close>; the topology tracker, the pod queue, the preference relaxer and
  the existing-node wrapper of the same package) are not part of the sources at hand. Every
  function of theirs that the code calls is a field of the record \<open>deps\<close> below, so that each
  theorem holds for every implementation of them that has the Go signature.
\<close>

subsection \<open>Data\<close>

text \<open>
  \<^verbatim>\<open>context.Context\<close>: the only thing a claim asks of it is whether it has been cancelled.
\<close>

record "context" =
  Cancelled :: bool

text \<open>
  Errors. The constructors are the error values the code builds itself; \<open>External\<close> is an
  error made by one of the absent packages.
  \<^item> \<open>IncompatibleRequirements e\<close>: \<^verbatim>\<open>fmt.Errorf("incompatible requirements, %w", e)\<close>
  \<^item> \<open>NoInstanceType rs rq\<close>:
     \<^verbatim>\<open>fmt.Errorf("no instance type satisfied resources %s and requirements %s", rs, rq)\<close>
  \<^item> \<open>ExceedLimits\<close>: \<^verbatim>\<open>fmt.Errorf("all available instance types exceed provisioner limits")\<close>
  \<^item> \<open>IncompatibleWithProvisioner name e\<close>:
     \<^verbatim>\<open>fmt.Errorf("incompatible with provisioner %q, %w", name, e)\<close>
  \<^item> \<open>Multi es\<close>: the combined error of \<^verbatim>\<open>multierr.Append\<close>.
\<close>

datatype error =
    External string
  | IncompatibleRequirements error
  | NoInstanceType string string
  | ExceedLimits
  | IncompatibleWithProvisioner string error
  | Multi "error list"

text \<open>
  \<^verbatim>\<open>multierr.Append(left, right)\<close> of go.uber.org/multierr, for a right error that is not
  nil (the only use the code makes of it): nil on the left gives the right error; otherwise
  the result lists the errors of both sides.
\<close>

fun multierr_Append :: "error option \<Rightarrow> error \<Rightarrow> error option" where
  "multierr_Append None e = Some e"
| "multierr_Append (Some (Multi es)) e = Some (Multi (es @ [e]))"
| "multierr_Append (Some l) e = Some (Multi [l, e])"

text \<open>
  \<^verbatim>\<open>v1.ResourceList\<close> is a Go map from resource name to quantity. The code ranges over it,
  so it is an association list here (keys distinct); a quantity is an integer number of
  the resource's smallest unit. A missing key reads as the zero quantity, as a Go map
  lookup does.
\<close>

type_synonym Quantity = int
type_synonym ResourceList = "(string \<times> Quantity) list"

definition quantity_of :: "ResourceList \<Rightarrow> string \<Rightarrow> Quantity" where
  "quantity_of rl k = (case map_of rl k of None \<Rightarrow> 0 | Some q \<Rightarrow> q)"

text \<open>
  Modelled from the spec: \<^verbatim>\<open>resources.Cmp\<close> (pkg/utils/resources is absent) compares two
  quantities: negative, zero or positive as the left one is smaller, equal or larger.
\<close>

definition resources_Cmp :: "Quantity \<Rightarrow> Quantity \<Rightarrow> int" where
  "resources_Cmp lhs rhs = (if lhs < rhs then - 1 else if lhs = rhs then 0 else 1)"

text \<open>
  \<^verbatim>\<open>scheduling.Requirements\<close> is a Go map keyed by the label key (the code applies the
  builtin \<^verbatim>\<open>delete\<close> to it); its values, of the absent type \<^verbatim>\<open>*Requirement\<close>, are \<open>'r\<close>.
\<close>

type_synonym 'r Requirements = "string \<rightharpoonup> 'r"

text \<open>Well-known label keys (constants of k8s.io/api/core/v1 and of v1alpha5).\<close>

definition LabelHostname :: string where
  "LabelHostname = ''kubernetes.io/hostname''"

definition LabelTopologyZone :: string where
  "LabelTopologyZone = ''topology.kubernetes.io/zone''"

definition LabelCapacityType :: string where
  "LabelCapacityType = ''karpenter.sh/capacity-type''"

datatype NodeSelectorOperator =
  NodeSelectorOpIn | NodeSelectorOpNotIn | NodeSelectorOpExists | NodeSelectorOpDoesNotExist
  | NodeSelectorOpGt | NodeSelectorOpLt

text \<open>
  A \<^verbatim>\<open>*v1.Pod\<close> is a pointer: the pair of the pointer's identity and the pod it points
  to (of the external type \<open>'p\<close>). The relaxer changes the pod behind the pointer, the
  error map of \<^verbatim>\<open>Solve\<close> is keyed by the pointer. A batch is taken to name each pod once.
\<close>

type_synonym 'p pod = "nat \<times> 'p"

text \<open>
  \<^verbatim>\<open>cloudprovider.InstanceType\<close> (declared outside the sources at hand), with the fields
  the code reads. \<open>OverheadTotal\<close> is the value of \<^verbatim>\<open>instanceType.Overhead.Total()\<close>.
  Modelled from the spec: an offering is a (zone, capacity-type, availability) tuple, and
  \<^verbatim>\<open>Offerings.Available()\<close>, absent, keeps the available ones.
\<close>

record Offering =
  Zone :: string
  CapacityType :: string
  Available :: bool

definition Offerings_Available :: "Offering list \<Rightarrow> Offering list" where
  "Offerings_Available offerings = filter Available offerings"

record 'r InstanceType =
  Name :: string
  itRequirements :: "'r Requirements"
  OverheadTotal :: ResourceList
  Capacity :: ResourceList
  Offerings :: "Offering list"

text \<open>
  \<^verbatim>\<open>MachineTemplate\<close> (declared outside the sources at hand), with the fields the code
  reads; \<open>'t\<close> is \<^verbatim>\<open>scheduling.Taints\<close>. \<^verbatim>\<open>Node\<close> embeds it, as the Go struct does. The
  node's \<^verbatim>\<open>topology\<close> field points to the one tracker that the scheduler and all its
  nodes share: the tracker is passed to and returned by every function that uses it,
  and is no field of the record.
\<close>

record ('r, 't) MachineTemplate =
  ProvisionerName :: string
  Requirements :: "'r Requirements"
  InstanceTypeOptions :: "'r InstanceType list"
  Requests :: ResourceList
  Taints :: 't
  StartupTaints :: 't

record ('p, 'r, 't, 'h) Node = "('r, 't) MachineTemplate" +
  Pods :: "'p pod list"
  hostPortUsage :: 'h

text \<open>
  \<^verbatim>\<open>ExistingNode\<close> (declared outside the sources at hand): the code reads its pod list and
  the cluster node it wraps (of which only the name matters here); \<open>'x\<close> is the rest.
\<close>

record ('p, 'x) ExistingNode =
  ePods :: "'p pod list"
  eNodeName :: string
  eRest :: 'x

subsection \<open>The absent packages\<close>

text \<open>
  One field for each function of an absent package that the code calls, with the Go
  signature: a receiver that the Go method can change is returned changed; a method that
  the spec describes as a check or a query (\<^verbatim>\<open>Tolerates\<close>, \<^verbatim>\<open>Validate\<close>, \<^verbatim>\<open>Compatible\<close>,
  \<^verbatim>\<open>Intersects\<close>, \<^verbatim>\<open>Has\<close>, \<^verbatim>\<open>Get\<close>, \<^verbatim>\<open>Values\<close>, \<^verbatim>\<open>AddRequirements\<close>) only returns its result.
  \<open>'h\<close> is \<^verbatim>\<open>scheduling.HostPortUsage\<close>, \<open>'T\<close> the topology tracker, \<open>'q\<close> the pod queue.
  \<^verbatim>\<open>sort.Slice\<close> is the standard library's: it returns some permutation of the slice
  that is ordered by \<open>less\<close>, and is not stable.
\<close>

record ('p, 'r, 't, 'h, 'T, 'q, 'x) deps =
  Taints_Tolerates :: "'t \<Rightarrow> 'p pod \<Rightarrow> error option"
  NewHostPortUsage :: 'h
  HostPortUsage_Validate :: "'h \<Rightarrow> 'p pod \<Rightarrow> error option"
  HostPortUsage_Add :: "context \<Rightarrow> 'h \<Rightarrow> 'p pod \<Rightarrow> 'h"
  NewRequirement :: "string \<Rightarrow> NodeSelectorOperator \<Rightarrow> string list \<Rightarrow> 'r"
  NewRequirements :: "'r list \<Rightarrow> 'r Requirements"
  NewPodRequirements :: "'p pod \<Rightarrow> 'r Requirements"
  Requirements_Values :: "'r Requirements \<Rightarrow> 'r list"
  Requirements_Add :: "'r Requirements \<Rightarrow> 'r list \<Rightarrow> 'r Requirements"
  Requirements_Compatible :: "'r Requirements \<Rightarrow> 'r Requirements \<Rightarrow> error option"
  Requirements_Intersects :: "'r Requirements \<Rightarrow> 'r Requirements \<Rightarrow> error option"
  Requirements_Has :: "'r Requirements \<Rightarrow> string \<Rightarrow> bool"
  Requirements_Get :: "'r Requirements \<Rightarrow> string \<Rightarrow> 'r"
  Requirements_String :: "'r Requirements \<Rightarrow> string"
  Requirement_Has :: "'r \<Rightarrow> string \<Rightarrow> bool"
  Topology_Register :: "'T \<Rightarrow> string \<Rightarrow> string \<Rightarrow> 'T"
  Topology_AddRequirements ::
    "'T \<Rightarrow> 'r Requirements \<Rightarrow> 'r Requirements \<Rightarrow> 'p pod \<Rightarrow> error + 'r Requirements"
  Topology_Record :: "'T \<Rightarrow> 'p pod \<Rightarrow> 'r Requirements \<Rightarrow> 'T"
  Topology_Update :: "context \<Rightarrow> 'T \<Rightarrow> 'p pod \<Rightarrow> error option \<times> 'T"
  resources_Merge :: "ResourceList list \<Rightarrow> ResourceList"
  resources_RequestsForPods :: "'p pod list \<Rightarrow> ResourceList"
  resources_Fits :: "ResourceList \<Rightarrow> ResourceList \<Rightarrow> bool"
  resources_MaxResources :: "ResourceList list \<Rightarrow> ResourceList"
  resources_String :: "ResourceList \<Rightarrow> string"
  ExistingNode_Add ::
    "context \<Rightarrow> 'p pod \<Rightarrow> ('p, 'x) ExistingNode \<Rightarrow> 'T
      \<Rightarrow> error option \<times> ('p, 'x) ExistingNode \<times> 'T"
  Preferences_Relax :: "bool \<Rightarrow> context \<Rightarrow> 'p pod \<Rightarrow> bool \<times> 'p"
  NewQueue :: "'p pod list \<Rightarrow> 'q"
  Queue_Pop :: "'q \<Rightarrow> 'p pod option \<times> 'q"
  Queue_Push :: "'q \<Rightarrow> 'p pod \<Rightarrow> bool \<Rightarrow> 'q"
  Queue_List :: "'q \<Rightarrow> 'p pod list"
  sort_Slice ::
    "(('p, 'r, 't, 'h) Node \<Rightarrow> ('p, 'r, 't, 'h) Node \<Rightarrow> bool)
      \<Rightarrow> ('p, 'r, 't, 'h) Node list \<Rightarrow> ('p, 'r, 't, 'h) Node list"

subsection \<open>node.go: the prospective node\<close>

text \<open>
  \<^verbatim>\<open>fmt.Sprintf("hostname-placeholder-%04d", n)\<close> for a signed 64-bit \<open>n\<close>: decimal, padded
  with zeros to four characters, the sign counted.
\<close>

fun decimal :: "nat \<Rightarrow> string" where
  "decimal n =
     (if n < 10 then [''0123456789'' ! n]
      else decimal (n div 10) @ [''0123456789'' ! (n mod 10)])"

definition zero_pad :: "nat \<Rightarrow> string \<Rightarrow> string" where
  "zero_pad w ds = replicate (w - length ds) CHR ''0'' @ ds"

definition Sprintf_04d :: "int \<Rightarrow> string" where
  "Sprintf_04d n =
     (if n < 0 then CHR ''-'' # zero_pad 3 (decimal (nat (- n)))
      else zero_pad 4 (decimal (nat n)))"

definition hostname_placeholder :: "64 word \<Rightarrow> string" where
  "hostname_placeholder n = ''hostname-placeholder-'' @ Sprintf_04d (sint n)"

text \<open>
  \<^verbatim>\<open>NewNode\<close>. The package-level counter \<^verbatim>\<open>nodeID\<close> and the shared topology tracker are
  state: both are passed in and returned. \<^verbatim>\<open>atomic.AddInt64\<close> returns the new value and
  wraps around at 64 bits.
\<close>

definition NewNode ::
  "('p, 'r, 't, 'h, 'T, 'q, 'x) deps \<Rightarrow> ('r, 't) MachineTemplate \<Rightarrow> 'T \<Rightarrow> ResourceList
    \<Rightarrow> 'r InstanceType list \<Rightarrow> 64 word \<Rightarrow> ('p, 'r, 't, 'h) Node \<times> 'T \<times> 64 word" where
  "NewNode D machineTemplate topology daemonResources instanceTypes nodeID =
     (let nodeID = nodeID + 1;
          hostname = hostname_placeholder nodeID;
          topology = Topology_Register D topology LabelHostname hostname;
          requirements = NewRequirements D [];
          requirements = Requirements_Add D requirements
                           (Requirements_Values D (Requirements machineTemplate));
          requirements = Requirements_Add D requirements
                           [NewRequirement D LabelHostname NodeSelectorOpIn [hostname]];
          template = machineTemplate
                       \<lparr>Requirements := requirements,
                        InstanceTypeOptions := instanceTypes,
                        Requests := daemonResources\<rparr>
      in (MachineTemplate.extend template
            (Node.fields [] (NewHostPortUsage D)),
          topology, nodeID))"

definition compatible ::
  "('p, 'r, 't, 'h, 'T, 'q, 'x) deps \<Rightarrow> 'r InstanceType \<Rightarrow> 'r Requirements \<Rightarrow> bool" where
  "compatible D instanceType requirements =
     (Requirements_Intersects D (itRequirements instanceType) requirements = None)"

definition fits ::
  "('p, 'r, 't, 'h, 'T, 'q, 'x) deps \<Rightarrow> 'r InstanceType \<Rightarrow> ResourceList \<Rightarrow> bool" where
  "fits D instanceType requests =
     resources_Fits D (resources_Merge D [requests, OverheadTotal instanceType])
       (Capacity instanceType)"

definition hasOffering ::
  "('p, 'r, 't, 'h, 'T, 'q, 'x) deps \<Rightarrow> 'r InstanceType \<Rightarrow> 'r Requirements \<Rightarrow> bool" where
  "hasOffering D instanceType requirements =
     list_ex
       (\<lambda>offering.
          (\<not> Requirements_Has D requirements LabelTopologyZone
           \<or> Requirement_Has D (Requirements_Get D requirements LabelTopologyZone)
                (Zone offering))
          \<and> (\<not> Requirements_Has D requirements LabelCapacityType
             \<or> Requirement_Has D (Requirements_Get D requirements LabelCapacityType)
                  (CapacityType offering)))
       (Offerings_Available (Offerings instanceType))"

definition filterInstanceTypesByRequirements ::
  "('p, 'r, 't, 'h, 'T, 'q, 'x) deps \<Rightarrow> 'r InstanceType list \<Rightarrow> 'r Requirements
    \<Rightarrow> ResourceList \<Rightarrow> 'r InstanceType list" where
  "filterInstanceTypesByRequirements D instanceTypes requirements requests =
     filter
       (\<lambda>instanceType. compatible D instanceType requirements \<and> fits D instanceType requests
          \<and> hasOffering D instanceType requirements)
       instanceTypes"

text \<open>
  \<^verbatim>\<open>Node.Add\<close>. The receiver \<open>m\<close> and the shared tracker are the state; the result is the
  returned error (\<open>None\<close> is nil) with the state the call leaves behind. The local
  \<^verbatim>\<open>nodeRequirements\<close> is a fresh requirement set, built from the values of the node's.
\<close>

definition Node_Add ::
  "('p, 'r, 't, 'h, 'T, 'q, 'x) deps \<Rightarrow> context \<Rightarrow> 'p pod \<Rightarrow> ('p, 'r, 't, 'h) Node \<times> 'T
    \<Rightarrow> error option \<times> ('p, 'r, 't, 'h) Node \<times> 'T" where
  "Node_Add D ctx pod state =
     (case state of (m, topology) \<Rightarrow>
      (case Taints_Tolerates D (Taints m) pod of
         Some err \<Rightarrow> (Some err, m, topology)
       | None \<Rightarrow>
      (case HostPortUsage_Validate D (hostPortUsage m) pod of
         Some err \<Rightarrow> (Some err, m, topology)
       | None \<Rightarrow>
      (let nodeRequirements = NewRequirements D (Requirements_Values D (Requirements m));
           podRequirements = NewPodRequirements D pod
       in
      (case Requirements_Compatible D nodeRequirements podRequirements of
         Some err \<Rightarrow> (Some (IncompatibleRequirements err), m, topology)
       | None \<Rightarrow>
      (let nodeRequirements =
             Requirements_Add D nodeRequirements (Requirements_Values D podRequirements)
       in
      (case Topology_AddRequirements D topology podRequirements nodeRequirements pod of
         Inl err \<Rightarrow> (Some err, m, topology)
       | Inr topologyRequirements \<Rightarrow>
      (case Requirements_Compatible D nodeRequirements topologyRequirements of
         Some err \<Rightarrow> (Some err, m, topology)
       | None \<Rightarrow>
      (let nodeRequirements =
             Requirements_Add D nodeRequirements (Requirements_Values D topologyRequirements);
           requests = resources_Merge D [Requests m, resources_RequestsForPods D [pod]];
           instanceTypes =
             filterInstanceTypesByRequirements D (InstanceTypeOptions m) nodeRequirements
               requests
       in
       if length instanceTypes = 0 then
         (Some (NoInstanceType (resources_String D (resources_RequestsForPods D [pod]))
                  (Requirements_String D nodeRequirements)),
          m, topology)
       else
         (let m = m\<lparr>Pods := Pods m @ [pod]\<rparr>;
              m = m\<lparr>InstanceTypeOptions := instanceTypes\<rparr>;
              m = m\<lparr>Requests := requests\<rparr>;
              m = m\<lparr>Requirements := nodeRequirements\<rparr>;
              topology = Topology_Record D topology pod nodeRequirements;
              m = m\<lparr>hostPortUsage := HostPortUsage_Add D ctx (hostPortUsage m) pod\<rparr>
          in (None, m, topology)))))))))))"

text \<open>\<^verbatim>\<open>Node.FinalizeScheduling\<close>: \<^verbatim>\<open>delete(m.Requirements, v1.LabelHostname)\<close>.\<close>

definition FinalizeScheduling :: "('p, 'r, 't, 'h) Node \<Rightarrow> ('p, 'r, 't, 'h) Node" where
  "FinalizeScheduling m = m\<lparr>Requirements := (Requirements m)(LabelHostname := None)\<rparr>"

subsection \<open>scheduler.go: the scheduler\<close>

text \<open>
  What the scheduler publishes through its \<^verbatim>\<open>events.Recorder\<close>:
  \<^verbatim>\<open>events.PodFailedToSchedule(pod, err)\<close> and \<^verbatim>\<open>events.NominatePod(pod, node)\<close>.
\<close>

datatype 'p event =
    PodFailedToSchedule "'p pod" "error option"
  | NominatePod "'p pod" string

text \<open>
  \<^verbatim>\<open>Scheduler\<close>. A machine template is a pointer (\<^verbatim>\<open>daemonOverhead\<close> is keyed by it): the
  pair of its identity and the template. \<open>ToleratePreferNoSchedule\<close> is the only field of
  \<^verbatim>\<open>preferences\<close>, \<open>SimulationMode\<close> the only field of \<^verbatim>\<open>opts\<close>. The last three fields are
  the state outside the scheduler that it writes: the events published through
  \<^verbatim>\<open>recorder\<close> (oldest first), the node names passed to \<^verbatim>\<open>cluster.NominateNodeForPod\<close>, and
  the package-level \<^verbatim>\<open>nodeID\<close>. Log output is left out.
\<close>

record ('p, 'r, 't, 'h, 'T, 'x) Scheduler =
  newNodes :: "('p, 'r, 't, 'h) Node list"
  existingNodes :: "('p, 'x) ExistingNode list"
  machineTemplates :: "(nat \<times> ('r, 't) MachineTemplate) list"
  remainingResources :: "string \<rightharpoonup> ResourceList"
  instanceTypes :: "string \<rightharpoonup> 'r InstanceType list"
  daemonOverhead :: "nat \<rightharpoonup> ResourceList"
  ToleratePreferNoSchedule :: bool
  topology :: 'T
  SimulationMode :: bool
  recorder :: "'p event list"
  cluster :: "string list"
  nodeID :: "64 word"

text \<open>Reading a Go map of slices or of resource lists: a missing key reads as nil.\<close>

definition lookup_list :: "('k \<rightharpoonup> 'a list) \<Rightarrow> 'k \<Rightarrow> 'a list" where
  "lookup_list m k = (case m k of None \<Rightarrow> [] | Some v \<Rightarrow> v)"

text \<open>\<^verbatim>\<open>filterByRemainingResources\<close>: the inner loop clears \<^verbatim>\<open>viableInstance\<close>.\<close>

definition filterByRemainingResources ::
  "'r InstanceType list \<Rightarrow> ResourceList \<Rightarrow> 'r InstanceType list" where
  "filterByRemainingResources its remaining =
     filter
       (\<lambda>it. let itResources = Capacity it in
          fold
            (\<lambda>(resourceName, remainingQuantity) viableInstance.
               if resources_Cmp (quantity_of itResources resourceName) remainingQuantity > 0
               then False else viableInstance)
            remaining True)
       its"

text \<open>\<^verbatim>\<open>subtractMax\<close>; \<^verbatim>\<open>cp.Sub\<close> subtracts quantities.\<close>

definition subtractMax ::
  "('p, 'r, 't, 'h, 'T, 'q, 'x) deps \<Rightarrow> ResourceList \<Rightarrow> 'r InstanceType list
    \<Rightarrow> ResourceList" where
  "subtractMax D remaining its =
     (if length its = 0 then remaining
      else
        (let allInstanceResources = map Capacity its;
             itResources = resources_MaxResources D allInstanceResources
         in map (\<lambda>(k, v). (k, v - quantity_of itResources k)) remaining))"

text \<open>
  \<^verbatim>\<open>Scheduler.add\<close>, first loop: the in-flight nodes, in the order of the slice. The result
  says whether a node accepted the pod (the \<^verbatim>\<open>return nil\<close> inside the loop), with the
  nodes and the tracker as the calls left them.
\<close>

fun add_existingNodes ::
  "('p, 'r, 't, 'h, 'T, 'q, 'x) deps \<Rightarrow> context \<Rightarrow> 'p pod \<Rightarrow> ('p, 'x) ExistingNode list \<Rightarrow> 'T
    \<Rightarrow> bool \<times> ('p, 'x) ExistingNode list \<times> 'T" where
  "add_existingNodes D ctx pod [] topo = (False, [], topo)"
| "add_existingNodes D ctx pod (node # rest) topo =
     (case ExistingNode_Add D ctx pod node topo of
        (None, node', topo') \<Rightarrow> (True, node' # rest, topo')
      | (Some err, node', topo') \<Rightarrow>
          (case add_existingNodes D ctx pod rest topo' of
             (accepted, rest', topo'') \<Rightarrow> (accepted, node' # rest', topo'')))"

text \<open>Second loop: the prospective nodes, in the order of the (sorted) slice.\<close>

fun add_newNodes ::
  "('p, 'r, 't, 'h, 'T, 'q, 'x) deps \<Rightarrow> context \<Rightarrow> 'p pod \<Rightarrow> ('p, 'r, 't, 'h) Node list \<Rightarrow> 'T
    \<Rightarrow> bool \<times> ('p, 'r, 't, 'h) Node list \<times> 'T" where
  "add_newNodes D ctx pod [] topo = (False, [], topo)"
| "add_newNodes D ctx pod (node # rest) topo =
     (case Node_Add D ctx pod (node, topo) of
        (None, node', topo') \<Rightarrow> (True, node' # rest, topo')
      | (Some err, node', topo') \<Rightarrow>
          (case add_newNodes D ctx pod rest topo' of
             (accepted, rest', topo'') \<Rightarrow> (accepted, node' # rest', topo'')))"

text \<open>
  Third loop, one round: the body of the loop over \<^verbatim>\<open>s.machineTemplates\<close>. The result is
  \<open>Inl\<close> of the error the round appends to \<^verbatim>\<open>errs\<close> before \<^verbatim>\<open>continue\<close>, or \<open>Inr ()\<close> for
  \<^verbatim>\<open>return nil\<close>, with the scheduler as the round left it.
\<close>

definition add_machineTemplate ::
  "('p, 'r, 't, 'h, 'T, 'q, 'x) deps \<Rightarrow> context \<Rightarrow> 'p pod \<Rightarrow> nat \<times> ('r, 't) MachineTemplate
    \<Rightarrow> ('p, 'r, 't, 'h, 'T, 'x) Scheduler
    \<Rightarrow> (error + unit) \<times> ('p, 'r, 't, 'h, 'T, 'x) Scheduler" where
  "add_machineTemplate D ctx pod nodeTemplate s =
     (let name = ProvisionerName (snd nodeTemplate);
          (its, exceeded) =
            (case remainingResources s name of
               Some remaining \<Rightarrow>
                 (let filtered =
                        filterByRemainingResources (lookup_list (instanceTypes s) name) remaining
                  in (filtered, length filtered = 0))
             | None \<Rightarrow> (lookup_list (instanceTypes s) name, False))
      in
      if exceeded then (Inl ExceedLimits, s)
      else
        (case NewNode D (snd nodeTemplate) (topology s)
                (lookup_list (daemonOverhead s) (fst nodeTemplate)) its (nodeID s) of
           (node, topo', nodeID') \<Rightarrow>
        (case Node_Add D ctx pod (node, topo') of
           (Some err, node', topo'') \<Rightarrow>
             (Inl (IncompatibleWithProvisioner name err),
              s\<lparr>topology := topo'', nodeID := nodeID'\<rparr>)
         | (None, node', topo'') \<Rightarrow>
             (Inr (),
              s\<lparr>topology := topo'', nodeID := nodeID',
                newNodes := newNodes s @ [node'],
                remainingResources :=
                  (remainingResources s)
                    (name \<mapsto> subtractMax D (lookup_list (remainingResources s) name)
                               (InstanceTypeOptions node'))\<rparr>))))"

fun add_machineTemplates ::
  "('p, 'r, 't, 'h, 'T, 'q, 'x) deps \<Rightarrow> context \<Rightarrow> 'p pod
    \<Rightarrow> (nat \<times> ('r, 't) MachineTemplate) list \<Rightarrow> error option
    \<Rightarrow> ('p, 'r, 't, 'h, 'T, 'x) Scheduler
    \<Rightarrow> error option \<times> ('p, 'r, 't, 'h, 'T, 'x) Scheduler" where
  "add_machineTemplates D ctx pod [] errs s = (errs, s)"
| "add_machineTemplates D ctx pod (nodeTemplate # rest) errs s =
     (case add_machineTemplate D ctx pod nodeTemplate s of
        (Inr _, s') \<Rightarrow> (None, s')
      | (Inl err, s') \<Rightarrow> add_machineTemplates D ctx pod rest (multierr_Append errs err) s')"

text \<open>\<^verbatim>\<open>Scheduler.add\<close>. The \<open>less\<close> of \<^verbatim>\<open>sort.Slice\<close> compares the pod counts.\<close>

definition add ::
  "('p, 'r, 't, 'h, 'T, 'q, 'x) deps \<Rightarrow> context \<Rightarrow> 'p pod
    \<Rightarrow> ('p, 'r, 't, 'h, 'T, 'x) Scheduler
    \<Rightarrow> error option \<times> ('p, 'r, 't, 'h, 'T, 'x) Scheduler" where
  "add D ctx pod s =
     (case add_existingNodes D ctx pod (existingNodes s) (topology s) of
        (accepted, nodes, topo') \<Rightarrow>
     (let s = s\<lparr>existingNodes := nodes, topology := topo'\<rparr> in
      if accepted then (None, s)
      else
     (let s = s\<lparr>newNodes :=
                  sort_Slice D (\<lambda>a b. length (Pods a) < length (Pods b)) (newNodes s)\<rparr>
      in
     (case add_newNodes D ctx pod (newNodes s) (topology s) of
        (accepted, nodes, topo') \<Rightarrow>
     (let s = s\<lparr>newNodes := nodes, topology := topo'\<rparr> in
      if accepted then (None, s)
      else add_machineTemplates D ctx pod (machineTemplates s) None s)))))"

text \<open>
  \<^verbatim>\<open>recordSchedulingResults\<close>: the failure events, then, for each in-flight node with pods,
  the nomination of the node and one event for each of its pods.
\<close>

definition recordSchedulingResults ::
  "('p, 'r, 't, 'h, 'T, 'x) Scheduler \<Rightarrow> 'p pod list \<Rightarrow> 'p pod list
    \<Rightarrow> (nat \<Rightarrow> error option) \<Rightarrow> ('p, 'r, 't, 'h, 'T, 'x) Scheduler" where
  "recordSchedulingResults s pods failedToSchedule errors =
     s\<lparr>recorder :=
         recorder s
         @ map (\<lambda>pod. PodFailedToSchedule pod (errors (fst pod))) failedToSchedule
         @ concat (map (\<lambda>node. map (\<lambda>pod. NominatePod pod (eNodeName node)) (ePods node))
                     (existingNodes s)),
       cluster :=
         cluster s
         @ map eNodeName (filter (\<lambda>node. length (ePods node) > 0) (existingNodes s))\<rparr>"

text \<open>
  \<^verbatim>\<open>Scheduler.Solve\<close>. The loop runs as long as the queue hands out pods, which the code
  does not bound: \<open>None\<close> is a loop that never ends. \<^verbatim>\<open>errors\<close> is keyed by the pod
  pointer; a key that was never written reads as nil.
\<close>

partial_function (option) Solve_loop ::
  "('p, 'r, 't, 'h, 'T, 'q, 'x) deps \<Rightarrow> context
    \<Rightarrow> ('p, 'r, 't, 'h, 'T, 'x) Scheduler \<times> (nat \<Rightarrow> error option) \<times> 'q
    \<Rightarrow> (('p, 'r, 't, 'h, 'T, 'x) Scheduler \<times> (nat \<Rightarrow> error option) \<times> 'q) option" where
  "Solve_loop D ctx state =
     (case state of (s, errors, q) \<Rightarrow>
      (case Queue_Pop D q of
         (None, q) \<Rightarrow> Some (s, errors, q)
       | (Some pod, q) \<Rightarrow>
           (case add D ctx pod s of
              (err, s) \<Rightarrow>
                if err = None then Solve_loop D ctx (s, errors(fst pod := err), q)
                else
                  (case Preferences_Relax D (ToleratePreferNoSchedule s) ctx pod of
                     (relaxed, relaxedPod) \<Rightarrow>
                       Solve_loop D ctx
                         (if relaxed
                          then s\<lparr>topology :=
                                   snd (Topology_Update D ctx (topology s)
                                          (fst pod, relaxedPod))\<rparr>
                          else s,
                          errors(fst pod := err),
                          Queue_Push D q (fst pod, relaxedPod) relaxed)))))"

definition Solve ::
  "('p, 'r, 't, 'h, 'T, 'q, 'x) deps \<Rightarrow> context \<Rightarrow> ('p, 'r, 't, 'h, 'T, 'x) Scheduler
    \<Rightarrow> 'p pod list
    \<Rightarrow> ((('p, 'r, 't, 'h) Node list \<times> ('p, 'x) ExistingNode list \<times> error option)
         \<times> ('p, 'r, 't, 'h, 'T, 'x) Scheduler) option" where
  "Solve D ctx s pods =
     (case Solve_loop D ctx (s, (\<lambda>_. None), NewQueue D pods) of
        None \<Rightarrow> None
      | Some (s, errors, q) \<Rightarrow>
          (let s = s\<lparr>newNodes := map FinalizeScheduling (newNodes s)\<rparr>;
               s = (if \<not> SimulationMode s
                    then recordSchedulingResults s pods (Queue_List D q) errors
                    else s)
           in Some ((newNodes s, existingNodes s, None), s)))"

declare Solve_loop.simps [code]

subsection \<open>A small instance of the absent packages\<close>

text \<open>
  To run the model on concrete inputs: a pod is its CPU request; a requirement is a key
  with its allowed values, and a requirement set knows the three label keys above; the
  topology tracker is the list of registered host names; a taint list is tolerated when
  it is empty; the only resource is \<open>cpu\<close>; an in-flight node carries its free CPU and
  accepts a pod that fits; nothing is ever relaxed; the queue hands out each pod once
  and keeps the pods pushed back unrelaxed; \<^verbatim>\<open>sort.Slice\<close> is an insertion sort.
\<close>

fun insert_by :: "('a \<Rightarrow> 'a \<Rightarrow> bool) \<Rightarrow> 'a \<Rightarrow> 'a list \<Rightarrow> 'a list" where
  "insert_by lt x [] = [x]"
| "insert_by lt x (y # ys) = (if lt y x then y # insert_by lt x ys else x # y # ys)"

definition insertion_sort :: "('a \<Rightarrow> 'a \<Rightarrow> bool) \<Rightarrow> 'a list \<Rightarrow> 'a list" where
  "insertion_sort lt xs = foldr (insert_by lt) xs []"

definition cpu :: string where
  "cpu = ''cpu''"

type_synonym sample_requirement = "string \<times> string list"

definition sample ::
  "(int, sample_requirement, string list, unit, string list,
    int pod list \<times> int pod list, int) deps" where
  "sample =
    \<lparr>Taints_Tolerates =
       (\<lambda>taints pod. if taints = [] then None else Some (External ''taint not tolerated'')),
     NewHostPortUsage = (),
     HostPortUsage_Validate = (\<lambda>h pod. None),
     HostPortUsage_Add = (\<lambda>ctx h pod. h),
     NewRequirement = (\<lambda>key operator values. (key, values)),
     NewRequirements = (\<lambda>rs. fold (\<lambda>r m. m(fst r \<mapsto> r)) rs Map.empty),
     NewPodRequirements = (\<lambda>pod. Map.empty),
     Requirements_Values =
       (\<lambda>m. List.map_filter m [LabelHostname, LabelTopologyZone, LabelCapacityType]),
     Requirements_Add = (\<lambda>m rs. fold (\<lambda>r m. m(fst r \<mapsto> r)) rs m),
     Requirements_Compatible = (\<lambda>a b. None),
     Requirements_Intersects = (\<lambda>a b. None),
     Requirements_Has = (\<lambda>m key. m key \<noteq> None),
     Requirements_Get = (\<lambda>m key. case m key of None \<Rightarrow> (key, []) | Some r \<Rightarrow> r),
     Requirements_String = (\<lambda>m. []),
     Requirement_Has = (\<lambda>r v. v \<in> set (snd r)),
     Topology_Register = (\<lambda>t key v. t @ [v]),
     Topology_AddRequirements = (\<lambda>t podRequirements nodeRequirements pod. Inr Map.empty),
     Topology_Record = (\<lambda>t pod nodeRequirements. t),
     Topology_Update = (\<lambda>ctx t pod. (None, t)),
     resources_Merge = (\<lambda>rls. [(cpu, sum_list (map (\<lambda>rl. quantity_of rl cpu) rls))]),
     resources_RequestsForPods = (\<lambda>pods. [(cpu, sum_list (map snd pods))]),
     resources_Fits = (\<lambda>a b. quantity_of a cpu \<le> quantity_of b cpu),
     resources_MaxResources =
       (\<lambda>rls. [(cpu, fold max (map (\<lambda>rl. quantity_of rl cpu) rls) 0)]),
     resources_String = (\<lambda>rl. []),
     ExistingNode_Add =
       (\<lambda>ctx pod node t.
          if snd pod \<le> eRest node
          then (None, node\<lparr>ePods := ePods node @ [pod], eRest := eRest node - snd pod\<rparr>, t)
          else (Some (External ''does not fit''), node, t)),
     Preferences_Relax = (\<lambda>tolerate ctx pod. (False, snd pod)),
     NewQueue = (\<lambda>pods. (pods, [])),
     Queue_Pop =
       (\<lambda>q. case fst q of [] \<Rightarrow> (None, q) | pod # rest \<Rightarrow> (Some pod, (rest, snd q))),
     Queue_Push =
       (\<lambda>q pod relaxed. if relaxed then (fst q @ [pod], snd q) else (fst q, snd q @ [pod])),
     Queue_List = (\<lambda>q. fst q @ snd q),
     sort_Slice = insertion_sort\<rparr>"

text \<open>
  One instance type of 1000 CPU units (100 of them overhead), one provisioner without
  limits, a scheduler with no nodes yet, a cancelled context, and a prospective node
  fresh from \<^verbatim>\<open>NewNode\<close>.
\<close>

definition small :: "sample_requirement InstanceType" where
  "small =
     \<lparr>Name = ''small'', itRequirements = Map.empty, OverheadTotal = [(cpu, 100)],
      Capacity = [(cpu, 1000)],
      Offerings = [\<lparr>Zone = ''z1'', CapacityType = ''on-demand'', Available = True\<rparr>]\<rparr>"

definition template0 :: "(sample_requirement, string list) MachineTemplate" where
  "template0 =
     \<lparr>ProvisionerName = ''default'', Requirements = Map.empty, InstanceTypeOptions = [],
      Requests = [], Taints = [], StartupTaints = []\<rparr>"

definition sched0 ::
  "(int, sample_requirement, string list, unit, string list, int) Scheduler" where
  "sched0 =
     \<lparr>newNodes = [], existingNodes = [], machineTemplates = [(0, template0)],
      remainingResources = Map.empty, instanceTypes = [''default'' \<mapsto> [small]],
      daemonOverhead = Map.empty, ToleratePreferNoSchedule = False, topology = [],
      SimulationMode = False, recorder = [], cluster = [], nodeID = 0\<rparr>"

definition cancelled :: "context" where
  "cancelled = \<lparr>Cancelled = True\<rparr>"

definition node0 :: "(int, sample_requirement, string list, unit) Node" where
  "node0 = fst (NewNode sample template0 [] [] [small] 0)"

section \<open>Properties\<close>

subsection \<open>\<^verbatim>\<open>Node.Add\<close> changes the node only when it succeeds\<close>

lemma Node_Add_rejects_frame:
  "fst (Node_Add D ctx pod (m, topo)) \<noteq> None
    \<Longrightarrow> snd (Node_Add D ctx pod (m, topo)) = (m, topo)"
  by (auto simp: Node_Add_def Let_def split: option.splits sum.splits if_splits)

text \<open>
  Every error of \<^verbatim>\<open>Node.Add\<close> comes from one of its five checks: the taints, the host
  ports, the requirements (of the pod, or of the topology), the topology tracker, or the
  instance types.
\<close>

lemma Node_Add_error_cases:
  assumes "fst (Node_Add D ctx pod (m, topo)) = Some err"
  shows "Taints_Tolerates D (Taints m) pod = Some err
    \<or> HostPortUsage_Validate D (hostPortUsage m) pod = Some err
    \<or> (\<exists>e. err = IncompatibleRequirements e)
    \<or> (\<exists>pr nr. Topology_AddRequirements D topo pr nr pod = Inl err)
    \<or> (\<exists>nr tr. Requirements_Compatible D nr tr = Some err)
    \<or> (\<exists>rs rq. err = NoInstanceType rs rq)"
  using assms
  by (auto simp: Node_Add_def Let_def split: option.splits sum.splits if_splits)

text \<open>
  C1. Whenever \<^verbatim>\<open>Node.Add\<close> returns an error, for any pod and any prospective node and
  whichever check failed, the node is exactly what it was before the call: its pod list,
  its requirements, its accumulated requests, its instance type options and its host
  port usage (and the shared topology tracker too). The node changes only on the path
  that returns nil.
\<close>

theorem Node_Add_error_leaves_node_unchanged:
  assumes "Node_Add D ctx pod (m, topo) = (Some err, m', topo')"
  shows "m' = m \<and> Pods m' = Pods m \<and> Requirements m' = Requirements m
    \<and> Requests m' = Requests m \<and> InstanceTypeOptions m' = InstanceTypeOptions m
    \<and> hostPortUsage m' = hostPortUsage m \<and> topo' = topo"
proof -
  have "fst (Node_Add D ctx pod (m, topo)) \<noteq> None"
    using assms by simp
  then have "snd (Node_Add D ctx pod (m, topo)) = (m, topo)"
    by (rule Node_Add_rejects_frame)
  then show ?thesis
    using assms by simp
qed

text \<open>
  A pod of 5000 CPU units does not fit the fresh node of the instance: \<^verbatim>\<open>Add\<close> fails at the
  instance type check, after all the other checks have passed, and the node is unchanged.
\<close>

theorem Node_Add_error_leaves_node_unchanged_witness:
  "fst (Node_Add sample cancelled (0, 5000) (node0, [])) = Some (NoInstanceType [] [])
    \<and> fst (snd (Node_Add sample cancelled (0, 5000) (node0, []))) = node0
    \<and> Pods (fst (snd (Node_Add sample cancelled (0, 5000) (node0, [])))) = Pods node0"
proof -
  have e: "fst (Node_Add sample cancelled (0, 5000) (node0, [])) = Some (NoInstanceType [] [])"
    by code_simp
  have "Node_Add sample cancelled (0, 5000) (node0, []) =
      (Some (NoInstanceType [] []),
       fst (snd (Node_Add sample cancelled (0, 5000) (node0, []))),
       snd (snd (Node_Add sample cancelled (0, 5000) (node0, []))))"
    using e by (simp add: prod_eq_iff)
  from Node_Add_error_leaves_node_unchanged [OF this] e show ?thesis
    by simp
qed

subsection \<open>Finalized nodes carry no host name\<close>

lemma FinalizeScheduling_restrict:
  "FinalizeScheduling m = m\<lparr>Requirements := Requirements m |` (- {LabelHostname})\<rparr>"
proof -
  have "(Requirements m)(LabelHostname := None) = Requirements m |` (- {LabelHostname})"
    by (rule ext) (simp add: restrict_map_def)
  then show ?thesis
    unfolding FinalizeScheduling_def by (rule arg_cong)
qed

lemma Solve_returns_finalized:
  assumes "Solve D ctx s pods = Some ((nodes, existing, err), s')"
  shows "nodes = newNodes s' \<and> (\<forall>n \<in> set nodes. LabelHostname \<notin> dom (Requirements n))"
proof -
  obtain s1 errors q where l: "Solve_loop D ctx (s, (\<lambda>_. None), NewQueue D pods) = Some (s1, errors, q)"
    using assms by (auto simp: Solve_def split: option.splits)
  have n: "nodes = map FinalizeScheduling (newNodes s1)" and "nodes = newNodes s'"
    using assms l by (auto simp: Solve_def Let_def recordSchedulingResults_def split: if_splits)
  moreover have "\<forall>n \<in> set (map FinalizeScheduling (newNodes s1)). LabelHostname \<notin> dom (Requirements n)"
    by (simp add: FinalizeScheduling_def)
  ultimately show ?thesis by simp
qed

text \<open>
  C4. \<^verbatim>\<open>FinalizeScheduling\<close> removes the key \<^verbatim>\<open>kubernetes.io/hostname\<close> from the node's
  requirements and nothing else: every other requirement key, the pod list, the requests,
  the instance type options and all other fields are as before. And when \<^verbatim>\<open>Solve\<close>
  returns, no prospective node it returns has the host name key among its requirements.
\<close>

theorem FinalizeScheduling_removes_only_hostname:
  "Requirements (FinalizeScheduling m) LabelHostname = None
    \<and> dom (Requirements (FinalizeScheduling m)) = dom (Requirements m) - {LabelHostname}
    \<and> (\<forall>k. k \<noteq> LabelHostname
          \<longrightarrow> Requirements (FinalizeScheduling m) k = Requirements m k)
    \<and> Pods (FinalizeScheduling m) = Pods m
    \<and> Requests (FinalizeScheduling m) = Requests m
    \<and> InstanceTypeOptions (FinalizeScheduling m) = InstanceTypeOptions m
    \<and> hostPortUsage (FinalizeScheduling m) = hostPortUsage m
    \<and> ProvisionerName (FinalizeScheduling m) = ProvisionerName m
    \<and> Taints (FinalizeScheduling m) = Taints m
    \<and> StartupTaints (FinalizeScheduling m) = StartupTaints m
    \<and> FinalizeScheduling m = m\<lparr>Requirements := Requirements m |` (- {LabelHostname})\<rparr>
    \<and> (\<forall>nodes existing err s'.
          Solve D ctx s pods = Some ((nodes, existing, err), s')
          \<longrightarrow> nodes = newNodes s'
              \<and> (\<forall>n \<in> set nodes. LabelHostname \<notin> dom (Requirements n)))"
proof -
  have a: "Requirements (FinalizeScheduling m) LabelHostname = None"
    by (simp add: FinalizeScheduling_def)
  have b: "dom (Requirements (FinalizeScheduling m)) = dom (Requirements m) - {LabelHostname}"
    by (simp add: FinalizeScheduling_def)
  have c: "\<forall>k. k \<noteq> LabelHostname
          \<longrightarrow> Requirements (FinalizeScheduling m) k = Requirements m k"
    by (simp add: FinalizeScheduling_def)
  have d: "Pods (FinalizeScheduling m) = Pods m
    \<and> Requests (FinalizeScheduling m) = Requests m
    \<and> InstanceTypeOptions (FinalizeScheduling m) = InstanceTypeOptions m
    \<and> hostPortUsage (FinalizeScheduling m) = hostPortUsage m
    \<and> ProvisionerName (FinalizeScheduling m) = ProvisionerName m
    \<and> Taints (FinalizeScheduling m) = Taints m
    \<and> StartupTaints (FinalizeScheduling m) = StartupTaints m"
    by (simp add: FinalizeScheduling_def)
  have e: "\<forall>nodes existing err s'.
          Solve D ctx s pods = Some ((nodes, existing, err), s')
          \<longrightarrow> nodes = newNodes s'
              \<and> (\<forall>n \<in> set nodes. LabelHostname \<notin> dom (Requirements n))"
    using Solve_returns_finalized by blast
  from a b c d e FinalizeScheduling_restrict [of m] show ?thesis
    by blast
qed

text \<open>
  The fresh node of the instance has the host name key and loses it, and only it, when
  finalized; \<^verbatim>\<open>Solve\<close> on one pod of 200 CPU units returns one prospective node, with that
  pod and without the key.
\<close>

theorem FinalizeScheduling_removes_only_hostname_witness:
  "Requirements node0 LabelHostname = Some (LabelHostname, [''hostname-placeholder-0001''])
    \<and> Requirements (FinalizeScheduling node0) LabelHostname = None
    \<and> Solve sample cancelled sched0 [(0, 200)] \<noteq> None
    \<and> map Pods (fst (fst (the (Solve sample cancelled sched0 [(0, 200)])))) = [[(0, 200)]]
    \<and> list_all (\<lambda>n. LabelHostname \<notin> dom (Requirements n))
         (fst (fst (the (Solve sample cancelled sched0 [(0, 200)]))))"
proof -
  have a: "Requirements node0 LabelHostname
      = Some (LabelHostname, [''hostname-placeholder-0001''])"
    by code_simp
  have b: "Solve sample cancelled sched0 [(0, 200)] \<noteq> None"
    by code_simp
  have c: "map Pods (fst (fst (the (Solve sample cancelled sched0 [(0, 200)])))) = [[(0, 200)]]"
    by code_simp
  obtain nodes existing err s' where
    r: "Solve sample cancelled sched0 [(0, 200)] = Some ((nodes, existing, err), s')"
    using b by (cases "Solve sample cancelled sched0 [(0, 200)]") auto
  note t = FinalizeScheduling_removes_only_hostname [of node0 sample cancelled sched0 "[(0, 200)]"]
  from t r have "\<forall>n \<in> set nodes. LabelHostname \<notin> dom (Requirements n)"
    by blast
  then have "list_all (\<lambda>n. LabelHostname \<notin> dom (Requirements n))
      (fst (fst (the (Solve sample cancelled sched0 [(0, 200)]))))"
    using r by (simp add: list_all_iff)
  with a b c t show ?thesis
    by simp
qed

end
